theory Spec2Isabelle
  imports Main "HOL-Library.AList" "HOL-Library.Word"
begin

section \<open>The Regalpaket server: data model\<close>

text \<open>
  The server (\<^verbatim>\<open>src/unnamed/part_006\<close>) keeps PDF files and \<^verbatim>\<open>.regal\<close> containers in
  one library directory, the PDF annotation store in \<^verbatim>\<open>annotations.json\<close> and the
  shelves in \<^verbatim>\<open>shelves.json\<close>. A container is a zip archive; the handlers read it with
  \<^verbatim>\<open>unzipper.Open.file\<close> and rebuild it with \<^verbatim>\<open>archiver\<close> from a scratch directory.

  A stroke is opaque to the server (it only tests \<^verbatim>\<open>strokes && strokes.length > 0\<close>), so
  the type of strokes is a parameter \<open>'s\<close>. A file is described by what the server's parsers
  make of its bytes: JSON text (the result of \<^verbatim>\<open>JSON.stringify\<close>, read back by
  \<^verbatim>\<open>JSON.parse\<close>), a complete zip archive with its file entries in order, a zip archive
  whose output stream was opened but not yet closed (no central directory: it cannot be
  opened), or any other bytes. Entry paths are flat names; the directory entries of an
  archive (skipped by \<^verbatim>\<open>file.type === 'File'\<close> and recreated by \<^verbatim>\<open>mkdirSync\<close>) are left out.
\<close>

type_synonym bytes = "8 word list"

record manifest =
  version :: nat
  name :: string
  created :: string
  pageCount :: nat
  originalFile :: string
  pages :: "(nat \<times> string) list"

datatype 's json = Strokes "'s list" | Manifest manifest

datatype 's blob =
    Bytes bytes
  | JsonText "'s json"
  | Zip "(string \<times> 's blob) list"
  | PartialZip "(string \<times> 's blob) list"

record shelf =
  shelf_id :: string
  shelf_name :: string
  files :: "string list"

record 's server =
  library :: "string \<rightharpoonup> 's blob"
  temp :: "(string \<times> 's blob) list"
  annotations :: "string \<rightharpoonup> (string \<times> 's list) list"
  shelves :: "shelf list"

datatype 's response =
    Json "'s json"
  | Image "'s blob"
  | Success
  | Converted string nat
  | Status nat string
  | ServerError

section \<open>Strings and entry names\<close>

definition lower_char :: "char \<Rightarrow> char" where
  "lower_char c =
     (let n = (of_char c :: nat) in if 65 \<le> n \<and> n \<le> 90 then char_of (n + 32) else c)"

definition toLowerCase :: "string \<Rightarrow> string" where
  "toLowerCase s = map lower_char s"

definition endsWith :: "string \<Rightarrow> string \<Rightarrow> bool" where
  "endsWith s suffix =
     (length suffix \<le> length s \<and> drop (length s - length suffix) s = suffix)"

text \<open>\<^verbatim>\<open>decodedFileName.replace(/\.pdf$/i, '')\<close>\<close>

definition baseName :: "string \<Rightarrow> string" where
  "baseName s =
     (if endsWith (toLowerCase s) ''.pdf'' then take (length s - 4) s else s)"

definition regalName :: "string \<Rightarrow> string" where
  "regalName s = baseName s @ ''.regal''"

definition digit_char :: "nat \<Rightarrow> char" where
  "digit_char d = char_of (48 + d)"

text \<open>The decimal rendering of a page counter inside a template literal.\<close>

fun show_nat :: "nat \<Rightarrow> string" where
  "show_nat n =
     (if n < 10 then [digit_char n] else show_nat (n div 10) @ [digit_char (n mod 10)])"

declare show_nat.simps [simp del]

definition page_file :: "nat \<Rightarrow> string" where
  "page_file n = ''page-'' @ show_nat n @ ''.png''"

text \<open>\<^verbatim>\<open>`pages/page-${pageNum}.png`\<close> for a page parameter taken from the URL.\<close>

definition page_path :: "string \<Rightarrow> string" where
  "page_path pageNum = ''pages/page-'' @ pageNum @ ''.png''"

text \<open>\<^verbatim>\<open>`annotations/page-${pageNum}.json`\<close>\<close>

definition annotation_path :: "string \<Rightarrow> string" where
  "annotation_path pageNum = ''annotations/page-'' @ pageNum @ ''.json''"

text \<open>\<^verbatim>\<open>directory.files.find(f => f.path === p)\<close>: the first entry of that path.\<close>

definition find_entry :: "(string \<times> 's blob) list \<Rightarrow> string \<Rightarrow> 's blob option" where
  "find_entry es p = map_option snd (List.find (\<lambda>e. fst e = p) es)"

section \<open>File-system effects of the handlers\<close>

text \<open>
  Each handler performs a sequence of file-system effects. \<open>MkTemp\<close> creates the scratch
  directory \<^verbatim>\<open>.temp-<Date.now()>\<close> (a fresh name, hence empty); \<open>WriteTemp\<close> is
  \<^verbatim>\<open>fs.writeFileSync\<close> below it and \<open>UnlinkTemp\<close> is \<^verbatim>\<open>fs.unlinkSync\<close>;
  \<open>CreateWriteStream\<close> is \<^verbatim>\<open>fs.createWriteStream(regalPath)\<close>, which truncates the
  file at the target path; \<open>ArchiveEntry\<close> is one file of the scratch directory streamed
  by \<^verbatim>\<open>archiver\<close> into that stream; \<open>ArchiveClose\<close> is the end of
  \<^verbatim>\<open>archive.finalize()\<close>, when the central directory is written and the stream closes;
  \<open>RmTemp\<close> is \<^verbatim>\<open>fs.rmSync(tempDir, ...)\<close>.
\<close>

datatype 's fsop =
    MkTemp
  | WriteTemp string "'s blob"
  | UnlinkTemp string
  | CreateWriteStream string
  | ArchiveEntry string string "'s blob"
  | ArchiveClose string
  | RmTemp

fun step :: "'s fsop \<Rightarrow> 's server \<Rightarrow> 's server" where
  "step MkTemp st = st\<lparr>temp := []\<rparr>"
| "step (WriteTemp p c) st = st\<lparr>temp := AList.update p c (temp st)\<rparr>"
| "step (UnlinkTemp p) st = st\<lparr>temp := AList.delete p (temp st)\<rparr>"
| "step (CreateWriteStream f) st = st\<lparr>library := (library st)(f \<mapsto> PartialZip [])\<rparr>"
| "step (ArchiveEntry f p c) st =
     (case library st f of
        Some (PartialZip es) \<Rightarrow> st\<lparr>library := (library st)(f \<mapsto> PartialZip (es @ [(p, c)]))\<rparr>
      | _ \<Rightarrow> st)"
| "step (ArchiveClose f) st =
     (case library st f of
        Some (PartialZip es) \<Rightarrow> st\<lparr>library := (library st)(f \<mapsto> Zip es)\<rparr>
      | _ \<Rightarrow> st)"
| "step RmTemp st = st\<lparr>temp := []\<rparr>"


definition run :: "'s fsop list \<Rightarrow> 's server \<Rightarrow> 's server" where
  "run ops st = fold step ops st"

text \<open>
  Recreating the archive: \<^verbatim>\<open>fs.createWriteStream(regalPath)\<close>,
  \<^verbatim>\<open>archive.directory(tempDir, false)\<close>, \<^verbatim>\<open>archive.finalize()\<close>, then the scratch
  directory is removed. The files are taken in the order of the scratch directory's
  listing; readers look entries up by path, and paths in a directory are unique.
\<close>

definition archive_ops :: "string \<Rightarrow> 's server \<Rightarrow> 's fsop list" where
  "archive_ops f st =
     CreateWriteStream f # map (\<lambda>(p, c). ArchiveEntry f p c) (temp st) @ [ArchiveClose f, RmTemp]"

section \<open>PUT /api/regalpaket/:fileName/annotations/:pageNum\<close>

text \<open>
  The effects up to and including the update of the annotation file in the scratch
  directory: extract every file of the archive, then write the new strokes, or unlink
  the annotation file when the strokes are absent or empty and the file exists.
\<close>

definition put_prepare_ops ::
  "'s server \<Rightarrow> (string \<times> 's blob) list \<Rightarrow> string \<Rightarrow> 's list option \<Rightarrow> 's fsop list" where
  "put_prepare_ops st es pageNum strokes =
     (let ops1 = MkTemp # map (\<lambda>(p, c). WriteTemp p c) es;
          st1 = run ops1 st;
          annotationPath = annotation_path pageNum;
          ops2 = (case strokes of
                    Some (s # ss) \<Rightarrow> [WriteTemp annotationPath (JsonText (Strokes (s # ss)))]
                  | _ \<Rightarrow> if map_of (temp st1) annotationPath \<noteq> None
                         then [UnlinkTemp annotationPath] else [])
      in ops1 @ ops2)"

definition put_ops ::
  "'s server \<Rightarrow> string \<Rightarrow> (string \<times> 's blob) list \<Rightarrow> string \<Rightarrow> 's list option \<Rightarrow> 's fsop list" where
  "put_ops st f es pageNum strokes =
     (let prepare = put_prepare_ops st es pageNum strokes
      in prepare @ archive_ops f (run prepare st))"

definition put_annotations ::
  "'s server \<Rightarrow> string \<Rightarrow> string \<Rightarrow> 's list option \<Rightarrow> 's response \<times> 's server" where
  "put_annotations st fileName pageNum strokes =
     (case library st fileName of
        None \<Rightarrow> (Status 404 ''Regalpaket not found'', st)
      | Some (Zip es) \<Rightarrow> (Success, run (put_ops st fileName es pageNum strokes) st)
      | Some _ \<Rightarrow> (ServerError, st))"

text \<open>
  The state left behind when the handler stops after its first \<open>k\<close> effects, because the
  process is terminated there or because the next effect throws (the \<^verbatim>\<open>catch\<close> block
  answers 500 and undoes nothing).
\<close>

definition put_annotations_upto ::
  "nat \<Rightarrow> 's server \<Rightarrow> string \<Rightarrow> string \<Rightarrow> 's list option \<Rightarrow> 's server" where
  "put_annotations_upto k st fileName pageNum strokes =
     (case library st fileName of
        Some (Zip es) \<Rightarrow> run (take k (put_ops st fileName es pageNum strokes)) st
      | _ \<Rightarrow> st)"

section \<open>The read handlers\<close>

text \<open>GET /api/regalpaket/:fileName/manifest\<close>

definition get_manifest :: "'s server \<Rightarrow> string \<Rightarrow> 's response" where
  "get_manifest st fileName =
     (case library st fileName of
        None \<Rightarrow> Status 404 ''Regalpaket not found''
      | Some (Zip es) \<Rightarrow>
          (case find_entry es ''manifest.json'' of
             None \<Rightarrow> Status 400 ''Invalid Regalpaket: no manifest found''
           | Some (JsonText j) \<Rightarrow> Json j
           | Some _ \<Rightarrow> ServerError)
      | Some _ \<Rightarrow> ServerError)"

text \<open>GET /api/regalpaket/:fileName/page/:pageNum\<close>

definition get_page :: "'s server \<Rightarrow> string \<Rightarrow> string \<Rightarrow> 's response" where
  "get_page st fileName pageNum =
     (case library st fileName of
        None \<Rightarrow> Status 404 ''Regalpaket not found''
      | Some (Zip es) \<Rightarrow>
          (case find_entry es (page_path pageNum) of
             None \<Rightarrow> Status 404 ''Page not found''
           | Some content \<Rightarrow> Image content)
      | Some _ \<Rightarrow> ServerError)"

text \<open>GET /api/regalpaket/:fileName/annotations/:pageNum\<close>

definition get_page_annotations :: "'s server \<Rightarrow> string \<Rightarrow> string \<Rightarrow> 's response" where
  "get_page_annotations st fileName pageNum =
     (case library st fileName of
        None \<Rightarrow> Status 404 ''Regalpaket not found''
      | Some (Zip es) \<Rightarrow>
          (case find_entry es (annotation_path pageNum) of
             None \<Rightarrow> Json (Strokes [])
           | Some (JsonText j) \<Rightarrow> Json j
           | Some _ \<Rightarrow> ServerError)
      | Some _ \<Rightarrow> ServerError)"

section \<open>POST /api/regalpaket/convert/:fileName\<close>

text \<open>
  \<^verbatim>\<open>const idx = shelf.files.indexOf(decodedFileName); if (idx !== -1) shelf.files[idx] = regalName\<close>:
  the first occurrence is replaced.
\<close>

fun replace_first :: "string \<Rightarrow> string \<Rightarrow> string list \<Rightarrow> string list" where
  "replace_first a b [] = []"
| "replace_first a b (x # xs) = (if x = a then b # xs else x # replace_first a b xs)"

definition update_shelf :: "string \<Rightarrow> string \<Rightarrow> shelf \<Rightarrow> shelf" where
  "update_shelf a b s = s\<lparr>files := replace_first a b (files s)\<rparr>"

definition convert_manifest :: "string \<Rightarrow> string \<Rightarrow> bytes list \<Rightarrow> manifest" where
  "convert_manifest fileName now images =
     \<lparr>version = 1, name = baseName fileName, created = now, pageCount = length images,
      originalFile = ''original.pdf'',
      pages = map (\<lambda>(n, image). (n, page_file n)) (enumerate 1 images)\<rparr>"

text \<open>
  The files a conversion writes into the scratch directory, in the order of the writes:
  the rendered pages in render order, numbered from 1; one annotation file for every
  page key of the PDF's entry in the annotation store; the copy of the PDF; the manifest.
\<close>

definition convert_files ::
  "string \<Rightarrow> 's blob \<Rightarrow> bytes list \<Rightarrow> (string \<times> 's list) list \<Rightarrow> string
   \<Rightarrow> (string \<times> 's blob) list" where
  "convert_files fileName pdf images pdfAnnotations now =
     map (\<lambda>(n, image). (''pages/'' @ page_file n, Bytes image)) (enumerate 1 images)
     @ map (\<lambda>(pageNumber, strokes). (annotation_path pageNumber, JsonText (Strokes strokes)))
         pdfAnnotations
     @ [(''original.pdf'', pdf),
        (''manifest.json'', JsonText (Manifest (convert_manifest fileName now images)))]"

definition convert_prepare_ops ::
  "string \<Rightarrow> 's blob \<Rightarrow> bytes list \<Rightarrow> (string \<times> 's list) list \<Rightarrow> string \<Rightarrow> 's fsop list" where
  "convert_prepare_ops fileName pdf images pdfAnnotations now =
     MkTemp # map (\<lambda>(p, c). WriteTemp p c) (convert_files fileName pdf images pdfAnnotations now)"

text \<open>\<^verbatim>\<open>annotationsData.annotations[decodedFileName] || {}\<close>, as the list of its entries.\<close>

definition pdfAnnotations :: "'s server \<Rightarrow> string \<Rightarrow> (string \<times> 's list) list" where
  "pdfAnnotations st fileName = (case annotations st fileName of None \<Rightarrow> [] | Some a \<Rightarrow> a)"

text \<open>
  \<open>rendered\<close> is what \<^verbatim>\<open>pdf-to-img\<close> yields for the PDF (\<open>None\<close> when it throws);
  \<open>now\<close> is \<^verbatim>\<open>new Date().toISOString()\<close>.
\<close>

definition convert ::
  "'s server \<Rightarrow> string \<Rightarrow> bytes list option \<Rightarrow> string \<Rightarrow> 's response \<times> 's server" where
  "convert st fileName rendered now =
     (if \<not> endsWith (toLowerCase fileName) ''.pdf''
      then (Status 400 ''Only PDF files can be converted'', st)
      else case library st fileName of
        None \<Rightarrow> (Status 404 ''PDF file not found'', st)
      | Some pdf \<Rightarrow>
          (case rendered of
             None \<Rightarrow> (ServerError, run [MkTemp] st)
           | Some images \<Rightarrow>
               (let prepare = convert_prepare_ops fileName pdf images (pdfAnnotations st fileName) now;
                    st1 = run (prepare @ archive_ops (regalName fileName) (run prepare st)) st;
                    st2 = st1\<lparr>annotations := (annotations st1)(fileName := None)\<rparr>;
                    st3 = st2\<lparr>shelves := map (update_shelf fileName (regalName fileName)) (shelves st2)\<rparr>
                in (Converted (regalName fileName) (length images), st3))))"

section \<open>Sample data for the concrete checks\<close>

text \<open>
  A two-page container with strokes on page 2, beside a PDF that has strokes for its
  page 1 in the annotation store and stands on one shelf.
\<close>

abbreviation sample_manifest :: manifest where
  "sample_manifest \<equiv>
     \<lparr>version = 1, name = ''a'', created = ''2024-01-01T00:00:00.000Z'', pageCount = 2,
      originalFile = ''original.pdf'', pages = [(1, ''page-1.png''), (2, ''page-2.png'')]\<rparr>"

abbreviation sample_entries :: "(string \<times> nat blob) list" where
  "sample_entries \<equiv>
     [(''manifest.json'', JsonText (Manifest sample_manifest)),
      (''original.pdf'', Bytes [37, 80, 68, 70]),
      (''pages/page-1.png'', Bytes [1]),
      (''pages/page-2.png'', Bytes [2]),
      (''annotations/page-2.json'', JsonText (Strokes [7, 8]))]"

abbreviation sample_server :: "nat server" where
  "sample_server \<equiv>
     \<lparr>library = [''a.regal'' \<mapsto> Zip sample_entries, ''b.pdf'' \<mapsto> Bytes [37, 80]],
      temp = [],
      annotations = [''b.pdf'' \<mapsto> [(''1'', [3, 4])]],
      shelves = [\<lparr>shelf_id = ''shelf-1'', shelf_name = ''Bach'', files = [''b.pdf'', ''a.regal'']\<rparr>]\<rparr>"

text \<open>Containers whose manifest announces five pages while one page image is missing.\<close>

abbreviation five_page_manifest :: manifest where
  "five_page_manifest \<equiv>
     \<lparr>version = 1, name = ''five'', created = ''2024-01-01T00:00:00.000Z'', pageCount = 5,
      originalFile = ''original.pdf'',
      pages = [(1, ''page-1.png''), (2, ''page-2.png''), (3, ''page-3.png''),
               (4, ''page-4.png''), (5, ''page-5.png'')]\<rparr>"

abbreviation entries_without_page_3 :: "(string \<times> nat blob) list" where
  "entries_without_page_3 \<equiv>
     [(''manifest.json'', JsonText (Manifest five_page_manifest)),
      (''original.pdf'', Bytes [37, 80, 68, 70]),
      (''pages/page-1.png'', Bytes [1]),
      (''pages/page-2.png'', Bytes [2]),
      (''pages/page-4.png'', Bytes [4]),
      (''pages/page-5.png'', Bytes [5])]"

abbreviation entries_without_page_5 :: "(string \<times> nat blob) list" where
  "entries_without_page_5 \<equiv>
     [(''manifest.json'', JsonText (Manifest five_page_manifest)),
      (''original.pdf'', Bytes [37, 80, 68, 70]),
      (''pages/page-1.png'', Bytes [1]),
      (''pages/page-2.png'', Bytes [2]),
      (''pages/page-3.png'', Bytes [3]),
      (''pages/page-4.png'', Bytes [4])]"

abbreviation server_with :: "string \<Rightarrow> (string \<times> nat blob) list \<Rightarrow> nat server" where
  "server_with f es \<equiv> \<lparr>library = [f \<mapsto> Zip es], temp = [], annotations = Map.empty, shelves = []\<rparr>"

section \<open>Running effects\<close>

lemma run_append: "run (a @ b) st = run b (run a st)"
  by (simp add: run_def)

lemma run_Nil: "run [] st = st"
  by (simp add: run_def)

lemma run_Cons: "run (x # xs) st = run xs (step x st)"
  by (simp add: run_def)

lemma find_entry_map_of: "find_entry es p = map_of es p"
  by (induction es) (auto simp: find_entry_def)

lemma run_entries:
  "library st f = Some (PartialZip acc) \<Longrightarrow>
   run (map (\<lambda>(p, c). ArchiveEntry f p c) t) st = st\<lparr>library := (library st)(f \<mapsto> PartialZip (acc @ t))\<rparr>"
proof (induction t arbitrary: st acc)
  case Nil
  then show ?case by (simp add: run_Nil fun_upd_idem)
next
  case (Cons e t)
  obtain p c where e: "e = (p, c)" by (cases e)
  let ?st = "st\<lparr>library := (library st)(f \<mapsto> PartialZip (acc @ [(p, c)]))\<rparr>"
  have s: "step (ArchiveEntry f p c) st = ?st"
    using Cons.prems by simp
  have "run (map (\<lambda>(p, c). ArchiveEntry f p c) t) ?st
        = ?st\<lparr>library := (library ?st)(f \<mapsto> PartialZip ((acc @ [(p, c)]) @ t))\<rparr>"
    by (rule Cons.IH) simp
  then have "run (map (\<lambda>(p, c). ArchiveEntry f p c) t) ?st
        = st\<lparr>library := (library st)(f \<mapsto> PartialZip (acc @ (p, c) # t))\<rparr>"
    by simp
  with s e show ?case by (simp only: run_Cons list.map prod.case)
qed

lemma run_archive_ops:
  "run (archive_ops f st) st = st\<lparr>library := (library st)(f \<mapsto> Zip (temp st)), temp := []\<rparr>"
proof -
  let ?s1 = "step (CreateWriteStream f) st"
  have 1: "library ?s1 f = Some (PartialZip [])" by simp
  have "run (map (\<lambda>(p, c). ArchiveEntry f p c) (temp st)) ?s1
        = ?s1\<lparr>library := (library ?s1)(f \<mapsto> PartialZip ([] @ temp st))\<rparr>"
    by (rule run_entries [OF 1])
  then show ?thesis
    by (simp add: archive_ops_def run_Cons run_append run_Nil)
qed





lemma run_writes:
  "run (map (\<lambda>(p, c). WriteTemp p c) es) st
   = st\<lparr>temp := fold (\<lambda>(p, c). AList.update p c) es (temp st)\<rparr>"
proof (induction es arbitrary: st)
  case Nil
  show ?case by (simp add: run_Nil)
next
  case (Cons e es)
  obtain p c where e: "e = (p, c)" by (cases e)
  show ?case by (simp add: e run_Cons Cons.IH)
qed


lemma library_run_put_prepare:
  "library (run (put_prepare_ops st es pageNum strokes) st) = library st"
  by (simp add: put_prepare_ops_def Let_def run_append run_Cons run_Nil run_writes
      split: option.split list.split)

lemma temp_run_put_prepare_empty:
  "strokes = None \<or> strokes = Some [] \<Longrightarrow>
   map_of (temp (run (put_prepare_ops st es pageNum strokes) st)) (annotation_path pageNum) = None"
  by (auto simp: put_prepare_ops_def Let_def run_append run_Cons run_Nil run_writes delete_conv')


lemma put_annotations_Zip:
  assumes "library st fileName = Some (Zip es)"
  shows "put_annotations st fileName pageNum strokes
         = (Success, (run (put_prepare_ops st es pageNum strokes) st)
              \<lparr>library := (library st)(fileName \<mapsto>
                  Zip (temp (run (put_prepare_ops st es pageNum strokes) st))), temp := []\<rparr>)"
  using assms
  by (simp add: put_annotations_def put_ops_def Let_def run_append run_archive_ops
      library_run_put_prepare)

section \<open>Reading annotations\<close>

text \<open>
  Claim C4. For an existing container (a file at the path that opens as a zip archive)
  without an annotation entry for the page, reading that page's annotations answers the
  empty overlay \<open>[]\<close>, not an error.
\<close>

theorem missing_annotation_entry_reads_empty:
  assumes "library st fileName = Some (Zip es)"
    and "annotation_path pageNum \<notin> fst ` set es"
  shows "get_page_annotations st fileName pageNum = Json (Strokes [])"
proof -
  from assms(2) have "find_entry es (annotation_path pageNum) = None"
    by (simp add: find_entry_map_of map_of_eq_None_iff)
  with assms(1) show ?thesis by (simp add: get_page_annotations_def)
qed

theorem missing_annotation_entry_reads_empty_witness:
  "library sample_server ''a.regal'' = Some (Zip sample_entries)
   \<and> annotation_path ''1'' \<notin> fst ` set sample_entries
   \<and> get_page_annotations sample_server ''a.regal'' ''1'' = Json (Strokes [])"
  using missing_annotation_entry_reads_empty [of sample_server "''a.regal''" sample_entries "''1''"]
  by (simp add: annotation_path_def)

section \<open>Writing annotations\<close>

text \<open>
  Claim C3. Writing an empty overlay (strokes absent or \<open>[]\<close>) to an existing container
  succeeds, leaves no annotation entry for the page among the entries of the rebuilt
  archive, and a following read of the page's annotations answers \<open>[]\<close>.
\<close>

theorem empty_overlay_deletes_annotation_entry:
  assumes "library st fileName = Some (Zip es)"
    and "strokes = None \<or> strokes = Some []"
  shows "case put_annotations st fileName pageNum strokes of
           (r, st') \<Rightarrow>
             r = Success
             \<and> (\<exists>es'. library st' fileName = Some (Zip es')
                    \<and> annotation_path pageNum \<notin> fst ` set es')
             \<and> get_page_annotations st' fileName pageNum = Json (Strokes [])"
proof -
  let ?st2 = "run (put_prepare_ops st es pageNum strokes) st"
  have n: "annotation_path pageNum \<notin> fst ` set (temp ?st2)"
    using temp_run_put_prepare_empty [OF assms(2), of st es pageNum]
    by (simp add: map_of_eq_None_iff)
  then have "find_entry (temp ?st2) (annotation_path pageNum) = None"
    by (simp add: find_entry_map_of map_of_eq_None_iff)
  with n show ?thesis
    by (simp add: put_annotations_Zip [OF assms(1)] get_page_annotations_def)
qed

theorem empty_overlay_deletes_annotation_entry_witness:
  "library sample_server ''a.regal'' = Some (Zip sample_entries)
   \<and> (Some [] = (None :: nat list option) \<or> Some [] = Some ([] :: nat list))
   \<and> (case put_annotations sample_server ''a.regal'' ''2'' (Some []) of
           (r, st') \<Rightarrow>
             r = Success
             \<and> (\<exists>es'. library st' ''a.regal'' = Some (Zip es')
                    \<and> annotation_path ''2'' \<notin> fst ` set es')
             \<and> get_page_annotations st' ''a.regal'' ''2'' = Json (Strokes []))"
  using empty_overlay_deletes_annotation_entry
    [of sample_server "''a.regal''" sample_entries "Some []" "''2''"]
  by simp






section \<open>Opening the manifest\<close>

text \<open>
  Claim C5, as the code has it. The manifest handler parses the \<^verbatim>\<open>manifest.json\<close> entry
  and answers with the parsed value; the version field is not looked at, so a manifest
  of any version \<open>v\<close> is served as stored.
\<close>

theorem manifest_served_whatever_version:
  assumes "library st fileName = Some (Zip es)"
    and "find_entry es ''manifest.json'' = Some (JsonText (Manifest (m\<lparr>version := v\<rparr>)))"
  shows "get_manifest st fileName = Json (Manifest (m\<lparr>version := v\<rparr>))"
  using assms by (simp add: get_manifest_def)

theorem manifest_served_whatever_version_witness:
  "library (server_with ''old.regal'' [(''manifest.json'', JsonText (Manifest (sample_manifest\<lparr>version := 0\<rparr>)))])
      ''old.regal''
     = Some (Zip [(''manifest.json'', JsonText (Manifest (sample_manifest\<lparr>version := 0\<rparr>)))])
   \<and> find_entry [(''manifest.json'', JsonText (Manifest (sample_manifest\<lparr>version := 0\<rparr>)) :: nat blob)]
        ''manifest.json''
     = Some (JsonText (Manifest (sample_manifest\<lparr>version := 0\<rparr>)))
   \<and> get_manifest
        (server_with ''old.regal'' [(''manifest.json'', JsonText (Manifest (sample_manifest\<lparr>version := 0\<rparr>)))])
        ''old.regal''
     = Json (Manifest (sample_manifest\<lparr>version := 0\<rparr>))"
  using manifest_served_whatever_version
    [where st = "server_with ''old.regal'' [(''manifest.json'', JsonText (Manifest (sample_manifest\<lparr>version := 0\<rparr>)))]"
       and fileName = "''old.regal''"
       and es = "[(''manifest.json'', JsonText (Manifest (sample_manifest\<lparr>version := 0\<rparr>)))]"
       and m = sample_manifest and v = 0]
  by (simp add: find_entry_def)

text \<open>
  Against claim C5 as stated: a manifest of version 2 (the converter writes version 1)
  is parsed and served.
\<close>

theorem version_2_manifest_is_served:
  "version (sample_manifest\<lparr>version := 2\<rparr>) \<noteq> version (convert_manifest ''a.pdf'' ''now'' [])
   \<and> get_manifest
        (server_with ''v2.regal'' [(''manifest.json'', JsonText (Manifest (sample_manifest\<lparr>version := 2\<rparr>)))])
        ''v2.regal''
     = Json (Manifest (sample_manifest\<lparr>version := 2\<rparr>))"
  by (simp add: get_manifest_def find_entry_def convert_manifest_def)

text \<open>
  Claim C6, as the code has it. Opening the manifest compares nothing with the entry
  list of the archive: a manifest whose page \<open>k\<close> (any \<open>k\<close> in \<open>1..pageCount\<close>) has no
  image entry is served as stored, and the missing image shows only when page \<open>k\<close> itself
  is requested, as 404 \<^verbatim>\<open>Page not found\<close>.
\<close>

theorem manifest_served_without_structure_check:
  assumes "library st fileName = Some (Zip es)"
    and "find_entry es ''manifest.json'' = Some (JsonText (Manifest m))"
    and "k \<in> {1..pageCount m}"
    and "page_path (show_nat k) \<notin> fst ` set es"
  shows "get_manifest st fileName = Json (Manifest m)
         \<and> get_page st fileName (show_nat k) = Status 404 ''Page not found''"
proof -
  from assms(4) have "find_entry es (page_path (show_nat k)) = None"
    by (simp add: find_entry_map_of map_of_eq_None_iff)
  with assms(1,2) show ?thesis
    by (simp add: get_manifest_def get_page_def)
qed

theorem manifest_served_without_structure_check_witness:
  "library (server_with ''five.regal'' entries_without_page_5) ''five.regal''
     = Some (Zip entries_without_page_5)
   \<and> find_entry entries_without_page_5 ''manifest.json'' = Some (JsonText (Manifest five_page_manifest))
   \<and> 5 \<in> {1..pageCount five_page_manifest}
   \<and> page_path (show_nat 5) \<notin> fst ` set entries_without_page_5
   \<and> get_manifest (server_with ''five.regal'' entries_without_page_5) ''five.regal''
       = Json (Manifest five_page_manifest)
   \<and> get_page (server_with ''five.regal'' entries_without_page_5) ''five.regal'' (show_nat 5)
       = Status 404 ''Page not found''"
  using manifest_served_without_structure_check
    [where st = "server_with ''five.regal'' entries_without_page_5" and fileName = "''five.regal''"
       and es = entries_without_page_5 and m = five_page_manifest and k = 5]
  by (simp add: find_entry_def page_path_def show_nat.simps digit_char_def char_of_def bit_Suc_0_iff)

text \<open>
  Against claim C6 as stated: the manifest announces five pages, the archive holds the
  images of pages 1, 2, 4 and 5 only, and the manifest is served.
\<close>

theorem five_page_manifest_with_four_images_is_served:
  "pageCount five_page_manifest = 5
   \<and> page_path (show_nat 3) \<notin> fst ` set entries_without_page_3
   \<and> get_manifest (server_with ''five.regal'' entries_without_page_3) ''five.regal''
       = Json (Manifest five_page_manifest)"
  by (simp add: get_manifest_def find_entry_def page_path_def show_nat.simps digit_char_def
      char_of_def bit_Suc_0_iff)

section \<open>Interrupted annotation writes\<close>



lemma put_annotations_upto_all:
  "length (put_ops st fileName es pageNum strokes) \<le> k \<Longrightarrow>
   library st fileName = Some (Zip es) \<Longrightarrow>
   put_annotations_upto k st fileName pageNum strokes
     = snd (put_annotations st fileName pageNum strokes)"
  by (simp add: put_annotations_upto_def put_annotations_def)




section \<open>Conversion\<close>

lemma library_run_convert_prepare:
  "library (run (convert_prepare_ops fileName pdf images anns now) st) = library st"
  by (simp add: convert_prepare_ops_def run_Cons run_writes)


lemma convert_ok:
  assumes "endsWith (toLowerCase fileName) ''.pdf''"
    and "library st fileName = Some pdf"
  shows "convert st fileName (Some images) now
         = (Converted (regalName fileName) (length images),
            \<lparr>library = (library st)(regalName fileName \<mapsto>
                 Zip (temp (run (convert_prepare_ops fileName pdf images
                        (pdfAnnotations st fileName) now) st))),
             temp = [],
             annotations = (annotations st)(fileName := None),
             shelves = map (update_shelf fileName (regalName fileName)) (shelves st)\<rparr>)"
proof -
  let ?prepare = "convert_prepare_ops fileName pdf images (pdfAnnotations st fileName) now"
  have a: "annotations (run ?prepare st) = annotations st"
    and s: "shelves (run ?prepare st) = shelves st"
    by (simp_all add: convert_prepare_ops_def run_Cons run_writes)
  show ?thesis
    using assms
    by (simp add: convert_def Let_def run_append run_archive_ops library_run_convert_prepare a s)
qed




















lemma convert_shelves_example:
  "shelves (snd (convert sample_server ''b.pdf'' (Some [[10], [20]]) ''now''))
   = [\<lparr>shelf_id = ''shelf-1'', shelf_name = ''Bach'', files = [''b.regal'', ''a.regal'']\<rparr>]"
proof -
  have h1: "endsWith (toLowerCase ''b.pdf'') ''.pdf''"
    by (simp add: endsWith_def toLowerCase_def lower_char_def)
  have h2: "library sample_server ''b.pdf'' = Some (Bytes [37, 80])"
    by simp
  have n: "regalName ''b.pdf'' = ''b.regal''"
    by (simp add: regalName_def baseName_def h1)
  show ?thesis
    unfolding convert_ok [OF h1 h2] n by (simp add: update_shelf_def)
qed

text \<open>The conversion of the sample PDF, read back.\<close>

lemma convert_roundtrip_example:
  "get_page (snd (convert sample_server ''b.pdf'' (Some [[10], [20]]) ''now'')) ''b.regal'' (show_nat 2)
     = Image (Bytes [20])
   \<and> get_page_annotations (snd (convert sample_server ''b.pdf'' (Some [[10], [20]]) ''now''))
       ''b.regal'' ''1''
     = Json (Strokes [3, 4])
   \<and> get_page_annotations (snd (convert sample_server ''b.pdf'' (Some [[10], [20]]) ''now''))
       ''b.regal'' ''2''
     = Json (Strokes [])"
proof -
  have h1: "endsWith (toLowerCase ''b.pdf'') ''.pdf''"
    by (simp add: endsWith_def toLowerCase_def lower_char_def)
  have h2: "library sample_server ''b.pdf'' = Some (Bytes [37, 80])"
    by simp
  have n: "regalName ''b.pdf'' = ''b.regal''" "baseName ''b.pdf'' = ''b''"
    by (simp_all add: regalName_def baseName_def h1)
  have t: "temp (run (convert_prepare_ops ''b.pdf'' (Bytes [37, 80]) [[10], [20]]
                   (pdfAnnotations sample_server ''b.pdf'') ''now'') sample_server)
           = [(''pages/page-1.png'', Bytes [10]),
              (''pages/page-2.png'', Bytes [20]),
              (''annotations/page-1.json'', JsonText (Strokes [3, 4])),
              (''original.pdf'', Bytes [37, 80]),
              (''manifest.json'',
               JsonText (Manifest \<lparr>version = 1, name = ''b'', created = ''now'', pageCount = 2,
                                   originalFile = ''original.pdf'',
                                   pages = [(1, ''page-1.png''), (2, ''page-2.png'')]\<rparr>))]"
    by (simp add: convert_prepare_ops_def convert_files_def convert_manifest_def pdfAnnotations_def
        run_Cons run_Nil run_writes annotation_path_def page_file_def show_nat.simps digit_char_def
        char_of_def bit_Suc_0_iff n)
  show ?thesis
    unfolding convert_ok [OF h1 h2] t n
    by (simp add: get_page_def get_page_annotations_def find_entry_def page_path_def
        annotation_path_def show_nat.simps digit_char_def char_of_def bit_Suc_0_iff)
qed

end
